theory Spec2Isabelle
  imports Complex_Main "HOL-Library.AList" "HOL-Library.Sublist"
begin

section \<open>Values of the Go runtime\<close>

subsection \<open>float64\<close>

text \<open>
  The amounts of the program are Go \<^verbatim>\<open>float64\<close> values (IEEE 754 binary64). A finite
  value is represented by the rational number it denotes; the two zeros are one value
  (the program only adds amounts and compares them with 0, and positive and negative zero agree
  on both). \<open>bitLength n\<close> is the number of binary digits of \<open>n\<close>; \<open>ilog2 a\<close> is the
  integer \<open>k\<close> with \<open>2 ^ k \<le> a < 2 ^ (k + 1)\<close>, for \<open>0 < a\<close>.
  \<open>round64\<close> is rounding to the nearest binary64 value, ties to even: 53 significant
  bits, least exponent \<open>-1074\<close>, and infinity when the rounded magnitude reaches
  \<open>2 ^ 1024\<close>.
\<close>

datatype float64 = Finite rat | PosInf | NegInf | NaN

definition pow2 :: "int \<Rightarrow> rat" where
  "pow2 k = (if 0 \<le> k then of_int (2 ^ nat k) else 1 / of_int (2 ^ nat (- k)))"

function bitLength :: "int \<Rightarrow> int" where
  "bitLength n = (if n \<le> 0 then 0 else 1 + bitLength (n div 2))"
  by pat_completeness auto
termination
  by (relation "measure nat") auto

definition ilog2 :: "rat \<Rightarrow> int" where
  "ilog2 a = (let n = fst (quotient_of a); d = snd (quotient_of a);
                  k = bitLength n - bitLength d
              in if pow2 k \<le> a then k else k - 1)"

definition roundEven :: "rat \<Rightarrow> int" where
  "roundEven x = (let f = \<lfloor>x\<rfloor>; r = x - of_int f
                  in if r < 1 / 2 then f else if 1 / 2 < r then f + 1
                     else if even f then f else f + 1)"

definition round64 :: "rat \<Rightarrow> float64" where
  "round64 q = (if q = 0 then Finite 0 else
     let a = \<bar>q\<bar>; e = max (ilog2 a - 52) (- 1074);
         r = of_int (roundEven (a / pow2 e)) * pow2 e
     in if 1024 \<le> ilog2 r then (if 0 < q then PosInf else NegInf)
        else Finite (if 0 < q then r else - r))"

text \<open>The \<^verbatim>\<open>+\<close> of two \<^verbatim>\<open>float64\<close> values.\<close>

fun fadd :: "float64 \<Rightarrow> float64 \<Rightarrow> float64" where
  "fadd (Finite a) (Finite b) = round64 (a + b)"
| "fadd NaN y = NaN"
| "fadd x NaN = NaN"
| "fadd PosInf NegInf = NaN"
| "fadd NegInf PosInf = NaN"
| "fadd PosInf y = PosInf"
| "fadd x PosInf = PosInf"
| "fadd NegInf y = NegInf"
| "fadd x NegInf = NegInf"

text \<open>The real number a finite value denotes (0 for the infinities and NaN, which denote none).\<close>

fun exactValue :: "float64 \<Rightarrow> rat" where
  "exactValue (Finite q) = q"
| "exactValue x = 0"

subsection \<open>The results of strconv\<close>

text \<open>
  A \<^verbatim>\<open>strconv\<close> parser returns a value and an error. \<open>Parsed v\<close> is \<^verbatim>\<open>(v, nil)\<close>;
  \<open>ErrSyntax\<close> is a syntax error, returned with the value 0; \<open>ErrRange v\<close> is a range
  error, returned with the value \<open>v\<close> (the nearest bound for \<^verbatim>\<open>ParseInt\<close>, an infinity
  for \<^verbatim>\<open>ParseFloat\<close>). The callers that write \<^verbatim>\<open>v, _ := strconv.Parse...\<close> read the value
  and drop the error: \<open>intValue\<close> and \<open>floatValue\<close>.
\<close>

datatype 'a parsed = Parsed 'a | ErrSyntax | ErrRange 'a

fun intValue :: "int parsed \<Rightarrow> int" where
  "intValue (Parsed v) = v"
| "intValue ErrSyntax = 0"
| "intValue (ErrRange v) = v"

fun floatValue :: "float64 parsed \<Rightarrow> float64" where
  "floatValue (Parsed v) = v"
| "floatValue ErrSyntax = Finite 0"
| "floatValue (ErrRange v) = v"

text \<open>
  \<^verbatim>\<open>strconv.ParseInt(s, 10, 64)\<close>: an optional sign, then \<^verbatim>\<open>ParseUint\<close> on the rest,
  which reads the digits from the left and returns at the first character that is no digit
  (syntax error) or at the first digit that takes the number beyond 64 bits (range error).
\<close>

definition isDigit :: "char \<Rightarrow> bool" where
  "isDigit c = (48 \<le> (of_char c :: int) \<and> (of_char c :: int) \<le> 57)"

definition digitVal :: "char \<Rightarrow> int" where
  "digitVal c = of_char c - 48"

definition maxUint64 :: int where
  "maxUint64 = 2 ^ 64 - 1"

fun parseUintLoop :: "int \<Rightarrow> string \<Rightarrow> int parsed" where
  "parseUintLoop n [] = Parsed n"
| "parseUintLoop n (c # cs) =
     (if \<not> isDigit c then ErrSyntax
      else if maxUint64 div 10 + 1 \<le> n then ErrRange maxUint64
      else if maxUint64 < n * 10 + digitVal c then ErrRange maxUint64
      else parseUintLoop (n * 10 + digitVal c) cs)"

definition ParseUint :: "string \<Rightarrow> int parsed" where
  "ParseUint s = (if s = [] then ErrSyntax else parseUintLoop 0 s)"

definition ParseInt :: "string \<Rightarrow> int parsed" where
  "ParseInt s0 =
     (if s0 = [] then ErrSyntax
      else
        let neg = (hd s0 = CHR ''-'');
            s = (if hd s0 = CHR ''+'' \<or> hd s0 = CHR ''-'' then tl s0 else s0)
        in case ParseUint s of
             ErrSyntax \<Rightarrow> ErrSyntax
           | Parsed un \<Rightarrow>
               if \<not> neg \<and> 2 ^ 63 \<le> un then ErrRange (2 ^ 63 - 1)
               else if neg \<and> 2 ^ 63 < un then ErrRange (- (2 ^ 63))
               else Parsed (if neg then - un else un)
           | ErrRange un \<Rightarrow>
               if \<not> neg \<and> 2 ^ 63 \<le> un then ErrRange (2 ^ 63 - 1)
               else if neg \<and> 2 ^ 63 < un then ErrRange (- (2 ^ 63))
               else Parsed (if neg then - un else un))"

subsection \<open>strings and time\<close>

text \<open>\<^verbatim>\<open>strings.Contains(s, substr)\<close>: \<open>substr\<close> occurs in \<open>s\<close> as a block of bytes.\<close>

fun Contains :: "string \<Rightarrow> string \<Rightarrow> bool" where
  "Contains [] substr = (substr = [])"
| "Contains (c # s) substr = (prefix substr (c # s) \<or> Contains s substr)"

text \<open>
  A \<^verbatim>\<open>time.Time\<close> is compared by the instant it denotes (\<^verbatim>\<open>After\<close>, \<^verbatim>\<open>Before\<close>), so it
  is that instant: the nanoseconds since the Unix epoch. The zero \<^verbatim>\<open>time.Time{}\<close> is
  January 1 of year 1, 62135596800 seconds before the epoch.
\<close>

type_synonym Time = int

definition UnixMilli :: "int \<Rightarrow> Time" where
  "UnixMilli msec = msec * 1000000"

definition zeroTime :: Time where
  "zeroTime = - 62135596800 * 1000000000"

section \<open>The data model\<close>

text \<open>\<^verbatim>\<open>okx.Bill\<close> (the field \<^verbatim>\<open>Type\<close> is \<open>BillType\<close> here) and \<^verbatim>\<open>okx.BillResponse\<close>.\<close>

record Bill =
  BillID :: string
  Ts :: string
  BillType :: string
  SubType :: string
  Pnl :: string
  BalChg :: string
  Ccy :: string
  InstId :: string
  OrdId :: string
  Notes :: string

record BillResponse =
  Code :: string
  Msg :: string
  Data :: "Bill list"

text \<open>\<^verbatim>\<open>model.Transaction\<close>; a \<^verbatim>\<open>model.TransactionType\<close> is a string.\<close>

type_synonym TransactionType = string

definition TypeDeposit :: TransactionType where
  "TypeDeposit = ''DEPOSIT''"

definition TypeWithdrawal :: TransactionType where
  "TypeWithdrawal = ''WITHDRAWAL''"

definition TypePnL :: TransactionType where
  "TypePnL = ''PNL''"

record Transaction =
  Timestamp :: Time
  Type :: TransactionType
  Amount :: float64
  Asset :: string
  Note :: string

section \<open>The library functions the program calls\<close>

text \<open>
  The functions of the Go standard library whose results depend on text formats, on the
  time zone or on the network are parameters of the program:
  \<^item> \<open>ParseFloat s\<close> is \<^verbatim>\<open>strconv.ParseFloat(s, 64)\<close>;
  \<^item> \<open>ParseTime s\<close> is \<^verbatim>\<open>time.Parse(time.RFC3339, s)\<close>, \<open>None\<close> for an error;
  \<^item> \<open>FormatTime t\<close> is \<^verbatim>\<open>t.Format(time.RFC3339)\<close>;
  \<^item> \<open>FormatFloat x\<close> is \<^verbatim>\<open>fmt.Sprintf("%.8f", x)\<close>;
  \<^item> \<open>Unmarshal body\<close> is \<^verbatim>\<open>json.Unmarshal(body, &result)\<close>, \<open>None\<close> for an error;
  \<^item> \<open>NewRequest url\<close> tells whether \<^verbatim>\<open>http.NewRequest("GET", url, nil)\<close> succeeds.
\<close>

record go_env =
  ParseFloat :: "string \<Rightarrow> float64 parsed"
  ParseTime :: "string \<Rightarrow> Time option"
  FormatTime :: "Time \<Rightarrow> string"
  FormatFloat :: "float64 \<Rightarrow> string"
  Unmarshal :: "string \<Rightarrow> BillResponse option"
  NewRequest :: "string \<Rightarrow> bool"

section \<open>The aggregator\<close>

text \<open>\<^verbatim>\<open>determineType\<close> and \<^verbatim>\<open>getNoteFromType\<close> of cmd/importer/main.go.\<close>

definition determineType :: "string \<Rightarrow> TransactionType" where
  "determineType billType =
     (if billType = ''1'' then TypeDeposit
      else if billType = ''2'' then TypeWithdrawal
      else TypePnL)"

definition getNoteFromType :: "string \<Rightarrow> string" where
  "getNoteFromType billType =
     (if billType = ''1'' then ''Deposit''
      else if billType = ''2'' then ''Withdrawal''
      else if billType = ''8'' then ''Funding Fee''
      else ''Auto Import'')"

text \<open>
  The body of the loop of \<^verbatim>\<open>aggregateAndMapBills\<close>, by its three branches: the amount and
  the timestamp of a bill (parse errors dropped), the update of a group that exists, the
  record of a new group, and the record of a bill with no order identifier.
\<close>

definition billAmount :: "go_env \<Rightarrow> Bill \<Rightarrow> float64" where
  "billAmount env bill = floatValue (ParseFloat env (BalChg bill))"

definition billTime :: "Bill \<Rightarrow> Time" where
  "billTime bill = UnixMilli (intValue (ParseInt (Ts bill)))"

definition mergeBill :: "go_env \<Rightarrow> Transaction \<Rightarrow> Bill \<Rightarrow> Transaction" where
  "mergeBill env existing bill =
     existing\<lparr>
       Amount := fadd (Amount existing) (billAmount env bill),
       Timestamp := (if Timestamp existing < billTime bill then billTime bill
                     else Timestamp existing),
       Note := (if \<not> Contains (Note existing) (InstId bill)
                then Note existing @ '' '' @ InstId bill else Note existing)\<rparr>"

definition newGroup :: "go_env \<Rightarrow> Bill \<Rightarrow> Transaction" where
  "newGroup env bill =
     \<lparr>Timestamp = billTime bill, Type = TypePnL, Amount = billAmount env bill,
      Asset = Ccy bill, Note = ''Trade ('' @ InstId bill @ '')''\<rparr>"

definition standalone :: "go_env \<Rightarrow> Bill \<Rightarrow> Transaction" where
  "standalone env bill =
     \<lparr>Timestamp = billTime bill, Type = determineType (BillType bill),
      Amount = billAmount env bill, Asset = Ccy bill,
      Note = (if InstId bill \<noteq> []
              then getNoteFromType (BillType bill) @ '' ('' @ InstId bill @ '')''
              else getNoteFromType (BillType bill))\<rparr>"

text \<open>
  The loop over the bills. \<open>mergedMap\<close> is the Go map from order identifier to group, kept
  as an association list in the order the identifiers were first seen (Go leaves the order
  of a map's iteration open; nothing below depends on it but the order of the groups in the
  result). \<open>AList.update\<close> replaces the value of a key in place and adds a new key at the end.
\<close>

fun aggregateLoop ::
  "go_env \<Rightarrow> Bill list \<Rightarrow> (string \<times> Transaction) list \<Rightarrow> Transaction list
    \<Rightarrow> (string \<times> Transaction) list \<times> Transaction list" where
  "aggregateLoop env [] mergedMap standaloneList = (mergedMap, standaloneList)"
| "aggregateLoop env (bill # bills) mergedMap standaloneList =
     (if OrdId bill \<noteq> [] then
        (case map_of mergedMap (OrdId bill) of
           Some existing \<Rightarrow>
             aggregateLoop env bills
               (AList.update (OrdId bill) (mergeBill env existing bill) mergedMap)
               standaloneList
         | None \<Rightarrow>
             aggregateLoop env bills
               (AList.update (OrdId bill) (newGroup env bill) mergedMap)
               standaloneList)
      else aggregateLoop env bills mergedMap (standaloneList @ [standalone env bill]))"

text \<open>
  The map at the end of the loop and the groups read from it. \<open>groupStep\<close> is what one bill
  of an order does to the group of that order: it creates the group or merges into it.
\<close>

definition orderGroups :: "go_env \<Rightarrow> Bill list \<Rightarrow> (string \<times> Transaction) list" where
  "orderGroups env bills = fst (aggregateLoop env bills [] [])"

definition groupStep :: "go_env \<Rightarrow> Transaction option \<Rightarrow> Bill \<Rightarrow> Transaction option" where
  "groupStep env g bill =
     Some (case g of None \<Rightarrow> newGroup env bill | Some existing \<Rightarrow> mergeBill env existing bill)"

definition mergedGroups :: "go_env \<Rightarrow> Bill list \<Rightarrow> Transaction list" where
  "mergedGroups env bills = map snd (orderGroups env bills)"

definition aggregateAndMapBills :: "go_env \<Rightarrow> Bill list \<Rightarrow> Transaction list" where
  "aggregateAndMapBills env bills =
     mergedGroups env bills @ snd (aggregateLoop env bills [] [])"

section \<open>The paginated fetcher\<close>

text \<open>
  \<^verbatim>\<open>FetchBills\<close> of internal/okx/client.go. The state of its loop is the three variables
  \<^verbatim>\<open>allBills\<close>, \<^verbatim>\<open>afterCursor\<close> and \<^verbatim>\<open>pageCount\<close>. What \<^verbatim>\<open>c.Client.Do(req)\<close> gives is a
  \<open>DoError\<close> (the transport failed) or a \<open>Response\<close> with its status code and its body.
  The headers and the signature of the request do not reach the control flow and are left out.
\<close>

record fetch_state =
  allBills :: "Bill list"
  afterCursor :: string
  pageCount :: nat

datatype http_reply = DoError | Response nat string

datatype fetch_error =
  RequestError | TransportError | HTTPError string | UnmarshalError | BizError string

datatype fetch_step = Next fetch_state | Return "fetch_error + Bill list"

definition requestURL :: "fetch_state \<Rightarrow> string" where
  "requestURL st =
     ''https://www.okx.com'' @ ''/api/v5/account/bills-archive'' @
     (if afterCursor st \<noteq> [] then ''?limit=100'' @ ''&after='' @ afterCursor st
      else ''?limit=100'')"

text \<open>
  One pass through the body of the loop from the response on (steps 4 and 5 of the source).
  \<open>Next st'\<close> is the next iteration in the state \<open>st'\<close> (\<^verbatim>\<open>continue\<close>, or the end of the
  body); \<open>Return\<close> is a \<^verbatim>\<open>return\<close> with an error, or a \<^verbatim>\<open>break\<close>, after which the function
  returns \<^verbatim>\<open>allBills\<close>.
\<close>

definition appendPage :: "fetch_state \<Rightarrow> Bill list \<Rightarrow> fetch_state" where
  "appendPage st page =
     \<lparr>allBills = allBills st @ page, afterCursor = BillID (last page),
      pageCount = pageCount st + 1\<rparr>"

definition handleReply :: "go_env \<Rightarrow> fetch_state \<Rightarrow> http_reply \<Rightarrow> fetch_step" where
  "handleReply env st reply =
     (case reply of
        DoError \<Rightarrow> Return (Inl TransportError)
      | Response statusCode body \<Rightarrow>
          if statusCode \<noteq> 200 then
            (if Contains body ''50011'' \<or> statusCode = 429 then Next st
             else Return (Inl (HTTPError body)))
          else
            (case Unmarshal env body of
               None \<Rightarrow> Return (Inl UnmarshalError)
             | Some result \<Rightarrow>
                 if Code result \<noteq> ''0'' then
                   (if Code result = ''50011'' then Next st
                    else Return (Inl (BizError (Msg result))))
                 else if 0 < length (Data result) then
                   (if length (Data result) < 100
                    then Return (Inr (allBills (appendPage st (Data result))))
                    else Next (appendPage st (Data result)))
                 else Return (Inr (allBills st))))"

text \<open>
  The loop, run against the replies the server gives to the successive requests. The loop
  can go on for ever (a server that always answers with a rate limit), so the list of
  replies is its fuel: \<open>Waiting st\<close> says that the replies are used up and the loop, in the
  state \<open>st\<close>, has sent its next request; \<open>Finished r\<close> says that \<^verbatim>\<open>FetchBills\<close> returned \<open>r\<close>.
\<close>

datatype fetch_result = Finished "fetch_error + Bill list" | Waiting fetch_state

fun fetchLoop :: "go_env \<Rightarrow> http_reply list \<Rightarrow> fetch_state \<Rightarrow> fetch_result" where
  "fetchLoop env [] st =
     (if \<not> NewRequest env (requestURL st) then Finished (Inl RequestError) else Waiting st)"
| "fetchLoop env (reply # replies) st =
     (if \<not> NewRequest env (requestURL st) then Finished (Inl RequestError)
      else case handleReply env st reply of
             Next st' \<Rightarrow> fetchLoop env replies st'
           | Return r \<Rightarrow> Finished r)"

definition initialState :: fetch_state where
  "initialState = \<lparr>allBills = [], afterCursor = [], pageCount = 1\<rparr>"

definition FetchBills :: "go_env \<Rightarrow> http_reply list \<Rightarrow> fetch_result" where
  "FetchBills env replies = fetchLoop env replies initialState"

text \<open>
  Two notions in the words of the specification, to state what the fetcher does with a
  reply. The rate-limit signal: the HTTP status 429, a status other than 200 with a body that
  contains the code \<^verbatim>\<open>50011\<close>, or a decoded response with the business code \<^verbatim>\<open>"50011"\<close>.
  A successfully fetched page: the data of a reply with the status 200 whose body decodes to
  a response with the code \<^verbatim>\<open>"0"\<close>.
\<close>

definition rateLimitSignal :: "go_env \<Rightarrow> http_reply \<Rightarrow> bool" where
  "rateLimitSignal env reply =
     (case reply of
        DoError \<Rightarrow> False
      | Response statusCode body \<Rightarrow>
          statusCode = 429 \<or> (statusCode \<noteq> 200 \<and> Contains body ''50011'') \<or>
          (statusCode = 200 \<and>
           (case Unmarshal env body of None \<Rightarrow> False
            | Some result \<Rightarrow> Code result = ''50011'')))"

definition successfulPage :: "go_env \<Rightarrow> http_reply \<Rightarrow> Bill list option" where
  "successfulPage env reply =
     (case reply of
        DoError \<Rightarrow> None
      | Response statusCode body \<Rightarrow>
          if statusCode = 200 then
            (case Unmarshal env body of None \<Rightarrow> None
             | Some result \<Rightarrow> if Code result = ''0'' then Some (Data result) else None)
          else None)"

section \<open>The ledger store\<close>

text \<open>
  The ledger file is the list of its CSV records, the header first; \<open>None\<close> is a file that
  does not exist. What a run meets besides: whether the configuration file can be read,
  the replies of the server, whether the ledger can be opened and read as CSV
  (\<^verbatim>\<open>os.Open\<close>, \<^verbatim>\<open>ReadAll\<close>), and whether it can be opened for writing (\<^verbatim>\<open>os.OpenFile\<close>).
\<close>

type_synonym ledger_file = "string list list option"

record run_io =
  ConfigReadable :: bool
  Replies :: "http_reply list"
  LedgerReadable :: bool
  LedgerWritable :: bool

datatype load_error = ReadError | TimeFormatError nat | AmountError nat

text \<open>
  \<^verbatim>\<open>LoadTransactions\<close> of package service: the loop over the records with their index
  \<open>i\<close>.
\<close>

fun loadLoop ::
  "go_env \<Rightarrow> nat \<Rightarrow> string list list \<Rightarrow> Transaction list \<Rightarrow> load_error + Transaction list"
  where
  "loadLoop env i [] transactions = Inr transactions"
| "loadLoop env i (row # records) transactions =
     (if i = 0 then loadLoop env (i + 1) records transactions
      else if length row < 5 then loadLoop env (i + 1) records transactions
      else case ParseTime env (row ! 0) of
             None \<Rightarrow> Inl (TimeFormatError (i + 1))
           | Some ts \<Rightarrow>
               (case ParseFloat env (row ! 2) of
                  Parsed amt \<Rightarrow>
                    loadLoop env (i + 1) records
                      (transactions @
                        [\<lparr>Timestamp = ts, Type = row ! 1, Amount = amt, Asset = row ! 3,
                          Note = row ! 4\<rparr>])
                | ErrSyntax \<Rightarrow> Inl (AmountError (i + 1))
                | ErrRange v \<Rightarrow> Inl (AmountError (i + 1))))"

definition LoadTransactions ::
  "go_env \<Rightarrow> run_io \<Rightarrow> string list list \<Rightarrow> load_error + Transaction list" where
  "LoadTransactions env io records =
     (if \<not> LedgerReadable io then Inl ReadError else loadLoop env 0 records [])"

text \<open>
  A parser's \<^verbatim>\<open>err != nil\<close>, and the rows on which the loop reaches the parsers and one
  of them reports an error: the rows with five fields or more whose timestamp or amount
  fails parsing. A row with fewer fields is skipped before anything is parsed.
\<close>

fun parseError :: "'a parsed \<Rightarrow> bool" where
  "parseError (Parsed v) = False"
| "parseError ErrSyntax = True"
| "parseError (ErrRange v) = True"

definition rowFails :: "go_env \<Rightarrow> string list \<Rightarrow> bool" where
  "rowFails env row =
     (5 \<le> length row \<and>
      (ParseTime env (row ! 0) = None \<or> parseError (ParseFloat env (row ! 2))))"

text \<open>\<^verbatim>\<open>getLastRecordTimestamp\<close> of cmd/importer/main.go.\<close>

definition getLastRecordTimestamp :: "go_env \<Rightarrow> run_io \<Rightarrow> ledger_file \<Rightarrow> Time" where
  "getLastRecordTimestamp env io ledger =
     (case ledger of
        None \<Rightarrow> zeroTime
      | Some records \<Rightarrow>
          (case LoadTransactions env io records of
             Inl err \<Rightarrow> zeroTime
           | Inr txs \<Rightarrow> if txs = [] then zeroTime else Timestamp (last txs)))"

text \<open>
  \<^verbatim>\<open>appendNewRecords\<close>. \<^verbatim>\<open>sort.Slice\<close> orders the slice by the comparison it is given
  and leaves the order of equal elements open; \<open>sort_key\<close> is one such order (the stable one).
  \<open>None\<close> is the \<^verbatim>\<open>log.Fatalf\<close> after a failed \<^verbatim>\<open>os.OpenFile\<close>.
\<close>

definition sortByTimestamp :: "Transaction list \<Rightarrow> Transaction list" where
  "sortByTimestamp newTxs = sort_key Timestamp newTxs"

definition csvRecord :: "go_env \<Rightarrow> Transaction \<Rightarrow> string list" where
  "csvRecord env tx =
     [FormatTime env (Timestamp tx), Type tx, FormatFloat env (Amount tx), Asset tx, Note tx]"

definition csvHeader :: "string list" where
  "csvHeader = [''timestamp'', ''type'', ''amount'', ''asset'', ''note'']"

definition appendNewRecords ::
  "go_env \<Rightarrow> run_io \<Rightarrow> ledger_file \<Rightarrow> Transaction list \<Rightarrow> ledger_file option" where
  "appendNewRecords env io ledger newTxs =
     (if \<not> LedgerWritable io then None
      else Some (Some ((case ledger of None \<Rightarrow> [csvHeader] | Some records \<Rightarrow> records) @
                       map (csvRecord env) (sortByTimestamp newTxs))))"

section \<open>The importer\<close>

text \<open>Step 5 of \<^verbatim>\<open>main\<close>: the loop that filters and deduplicates.\<close>

fun filterNew :: "Time \<Rightarrow> Transaction list \<Rightarrow> Transaction list" where
  "filterNew lastTimestamp [] = []"
| "filterNew lastTimestamp (tx # transactions) =
     (if Amount tx = Finite 0 then filterNew lastTimestamp transactions
      else if \<not> lastTimestamp < Timestamp tx then filterNew lastTimestamp transactions
      else tx # filterNew lastTimestamp transactions)"

text \<open>
  Steps 4 to 6 of \<^verbatim>\<open>main\<close>, from the bills \<^verbatim>\<open>FetchBills\<close> returned: the transactions
  handed to \<^verbatim>\<open>appendNewRecords\<close>, and the run from there.
\<close>

datatype fatal = ConfigError | FetchFailed fetch_error | OpenFileError

datatype outcome = Completed | Fatal fatal | Fetching fetch_state

definition newTransactions :: "go_env \<Rightarrow> Time \<Rightarrow> Bill list \<Rightarrow> Transaction list" where
  "newTransactions env lastTimestamp rawBills =
     filterNew lastTimestamp (aggregateAndMapBills env rawBills)"

definition importBills ::
  "go_env \<Rightarrow> run_io \<Rightarrow> ledger_file \<Rightarrow> Time \<Rightarrow> Bill list \<Rightarrow> outcome \<times> ledger_file" where
  "importBills env io ledger lastTimestamp rawBills =
     (if 0 < length (newTransactions env lastTimestamp rawBills) then
        (case appendNewRecords env io ledger (newTransactions env lastTimestamp rawBills) of
           None \<Rightarrow> (Fatal OpenFileError, ledger)
         | Some ledger' \<Rightarrow> (Completed, ledger'))
      else (Completed, ledger))"

text \<open>
  \<^verbatim>\<open>main\<close>: the outcome of the run and the ledger file it leaves. \<open>Fetching st\<close> is a run
  still in \<^verbatim>\<open>FetchBills\<close> when the replies are used up.
\<close>

definition main :: "go_env \<Rightarrow> run_io \<Rightarrow> ledger_file \<Rightarrow> outcome \<times> ledger_file" where
  "main env io ledger =
     (if \<not> ConfigReadable io then (Fatal ConfigError, ledger)
      else
        let lastTimestamp = getLastRecordTimestamp env io ledger
        in case FetchBills env (Replies io) of
             Finished (Inl err) \<Rightarrow> (Fatal (FetchFailed err), ledger)
           | Finished (Inr rawBills) \<Rightarrow> importBills env io ledger lastTimestamp rawBills
           | Waiting st \<Rightarrow> (Fetching st, ledger))"

section \<open>An environment for the examples\<close>

text \<open>
  The examples below run the program in one concrete environment: the time zone is UTC, and
  the library functions are given on the texts the examples use.
  \<^item> \<open>utcFormatTime\<close> writes an instant in the layout \<^verbatim>\<open>2006-01-02T15:04:05Z07:00\<close> for
    the zone UTC. The layout has no field for a fraction of a second, so the text names the
    whole second the instant lies in.
  \<^item> \<open>utcParseTime\<close> reads the texts of the shape \<^verbatim>\<open>YYYY-MM-DDThh:mm:ssZ\<close> and rejects
    every other text (the library also reads zone offsets and fractions of a second, which
    the examples do not use).
  \<^item> \<open>fixedFormatFloat\<close> writes a value with eight digits after the point.
  \<^item> \<open>decimalParseFloat\<close> reads an optional sign and decimal digits with at most one point,
    rounded to the nearest \<^verbatim>\<open>float64\<close>, and reports a syntax error on every other text
    (the library also reads exponents, hexadecimal numbers, infinities and NaN, which the
    examples do not use). A number of more than 310 digits before the point is beyond every
    \<^verbatim>\<open>float64\<close> and is a range error without further arithmetic, as in the library.
  \<^item> \<open>encodeResponse\<close> is the JSON text of a response (the texts of the examples need no
    escapes), and \<open>tableUnmarshal\<close> decodes the JSON texts of the responses it is given.
  \<^item> Every request can be built.
  \<open>exampleBill\<close> is a bill in the currency USDT with the fields the program reads.
\<close>

definition digitChar :: "int \<Rightarrow> char" where
  "digitChar n = ''0123456789'' ! nat n"

function showDecimal :: "int \<Rightarrow> string" where
  "showDecimal n =
     (if n < 10 then [digitChar n] else showDecimal (n div 10) @ [digitChar (n mod 10)])"
  by pat_completeness auto
termination
  by (relation "measure nat") auto

definition padZero :: "nat \<Rightarrow> int \<Rightarrow> string" where
  "padZero w n = replicate (w - length (showDecimal n)) (CHR ''0'') @ showDecimal n"

definition decimalValue :: "string \<Rightarrow> int" where
  "decimalValue s = foldl (\<lambda>n c. n * 10 + digitVal c) 0 s"

text \<open>The days since 1970-01-01 of a date of the proleptic Gregorian calendar, and back.\<close>

definition civilFromDays :: "int \<Rightarrow> int \<times> int \<times> int" where
  "civilFromDays z0 =
     (let z = z0 + 719468; era = z div 146097; doe = z mod 146097;
          yoe = (doe - doe div 1460 + doe div 36524 - doe div 146096) div 365;
          doy = doe - (365 * yoe + yoe div 4 - yoe div 100);
          mp = (5 * doy + 2) div 153;
          d = doy - (153 * mp + 2) div 5 + 1;
          m = (if mp < 10 then mp + 3 else mp - 9)
      in (yoe + era * 400 + (if m \<le> 2 then 1 else 0), m, d))"

definition daysFromCivil :: "int \<Rightarrow> int \<Rightarrow> int \<Rightarrow> int" where
  "daysFromCivil y0 m d =
     (let y = (if m \<le> 2 then y0 - 1 else y0); era = y div 400; yoe = y mod 400;
          doy = (153 * (if 2 < m then m - 3 else m + 9) + 2) div 5 + d - 1;
          doe = yoe * 365 + yoe div 4 - yoe div 100 + doy
      in era * 146097 + doe - 719468)"

definition daysIn :: "int \<Rightarrow> int \<Rightarrow> int" where
  "daysIn y m =
     (if m = 2 then (if y mod 4 = 0 \<and> (y mod 100 \<noteq> 0 \<or> y mod 400 = 0) then 29 else 28)
      else if m = 4 \<or> m = 6 \<or> m = 9 \<or> m = 11 then 30 else 31)"

definition showYear :: "int \<Rightarrow> string" where
  "showYear y = (if y < 0 then ''-'' @ padZero 4 (- y) else padZero 4 y)"

definition utcFormatTime :: "Time \<Rightarrow> string" where
  "utcFormatTime t =
     (let sec = t div 1000000000; days = sec div 86400; sod = sec mod 86400;
          ymd = civilFromDays days
      in showYear (fst ymd) @ ''-'' @ padZero 2 (fst (snd ymd)) @ ''-'' @
         padZero 2 (snd (snd ymd)) @ ''T'' @ padZero 2 (sod div 3600) @ '':'' @
         padZero 2 (sod mod 3600 div 60) @ '':'' @ padZero 2 (sod mod 60) @ ''Z'')"

definition textField :: "string \<Rightarrow> nat \<Rightarrow> nat \<Rightarrow> string" where
  "textField s i n = take n (drop i s)"

definition utcParseTime :: "string \<Rightarrow> Time option" where
  "utcParseTime s =
     (if length s \<noteq> 20 then None
      else if \<not> list_all isDigit
                (textField s 0 4 @ textField s 5 2 @ textField s 8 2 @ textField s 11 2 @
                 textField s 14 2 @ textField s 17 2) then None
      else if [s ! 4, s ! 7, s ! 10, s ! 13, s ! 16, s ! 19] \<noteq> ''--T::Z'' then None
      else
        let y = decimalValue (textField s 0 4); m = decimalValue (textField s 5 2);
            d = decimalValue (textField s 8 2); hh = decimalValue (textField s 11 2);
            mm = decimalValue (textField s 14 2); ss = decimalValue (textField s 17 2)
        in if m < 1 \<or> 12 < m \<or> d < 1 \<or> daysIn y m < d \<or> 24 \<le> hh \<or> 60 \<le> mm \<or> 60 \<le> ss
           then None
           else Some ((daysFromCivil y m d * 86400 + hh * 3600 + mm * 60 + ss) * 1000000000))"

definition fixedFormatFloat :: "float64 \<Rightarrow> string" where
  "fixedFormatFloat x =
     (case x of
        Finite q \<Rightarrow>
          (let n = roundEven (\<bar>q\<bar> * 10 ^ 8)
           in (if q < 0 then ''-'' else []) @ showDecimal (n div 10 ^ 8) @ ''.'' @
              padZero 8 (n mod 10 ^ 8))
      | PosInf \<Rightarrow> ''+Inf''
      | NegInf \<Rightarrow> ''-Inf''
      | NaN \<Rightarrow> ''NaN'')"

definition decimalParseFloat :: "string \<Rightarrow> float64 parsed" where
  "decimalParseFloat s0 =
     (let neg = (s0 \<noteq> [] \<and> hd s0 = CHR ''-'');
          s = (if s0 \<noteq> [] \<and> (hd s0 = CHR ''+'' \<or> hd s0 = CHR ''-'') then tl s0 else s0);
          ip = takeWhile isDigit s; rest = dropWhile isDigit s;
          fp = (if rest \<noteq> [] \<and> hd rest = CHR ''.'' then tl rest else rest)
      in if rest \<noteq> [] \<and> hd rest \<noteq> CHR ''.'' then ErrSyntax
         else if \<not> list_all isDigit fp then ErrSyntax
         else if ip @ fp = [] then ErrSyntax
         else if 310 < length (dropWhile (\<lambda>c. c = CHR ''0'') ip)
         then ErrRange (if neg then NegInf else PosInf)
         else
           let q = of_int (decimalValue (ip @ fp)) / 10 ^ length fp;
               r = round64 (if neg then - q else q)
           in if r = PosInf \<or> r = NegInf then ErrRange r else Parsed r)"

definition joinWith :: "string \<Rightarrow> string list \<Rightarrow> string" where
  "joinWith sep xs = (if xs = [] then [] else foldl (\<lambda>s x. s @ sep @ x) (hd xs) (tl xs))"

definition jsonString :: "string \<Rightarrow> string" where
  "jsonString s = [CHR 0x22] @ s @ [CHR 0x22]"

definition jsonField :: "string \<Rightarrow> string \<Rightarrow> string" where
  "jsonField k v = jsonString k @ '':'' @ v"

definition encodeBill :: "Bill \<Rightarrow> string" where
  "encodeBill b =
     ''{'' @ joinWith '',''
       [jsonField ''billId'' (jsonString (BillID b)), jsonField ''ts'' (jsonString (Ts b)),
        jsonField ''type'' (jsonString (BillType b)),
        jsonField ''subType'' (jsonString (SubType b)), jsonField ''pnl'' (jsonString (Pnl b)),
        jsonField ''balChg'' (jsonString (BalChg b)), jsonField ''ccy'' (jsonString (Ccy b)),
        jsonField ''instId'' (jsonString (InstId b)),
        jsonField ''ordId'' (jsonString (OrdId b)),
        jsonField ''notes'' (jsonString (Notes b))] @ ''}''"

definition encodeResponse :: "BillResponse \<Rightarrow> string" where
  "encodeResponse r =
     ''{'' @ joinWith '',''
       [jsonField ''code'' (jsonString (Code r)), jsonField ''msg'' (jsonString (Msg r)),
        jsonField ''data'' (''['' @ joinWith '','' (map encodeBill (Data r)) @ '']'')] @ ''}''"

definition tableUnmarshal :: "BillResponse list \<Rightarrow> string \<Rightarrow> BillResponse option" where
  "tableUnmarshal responses body = map_of (map (\<lambda>r. (encodeResponse r, r)) responses) body"

definition exampleBill ::
  "string \<Rightarrow> string \<Rightarrow> string \<Rightarrow> string \<Rightarrow> string \<Rightarrow> string \<Rightarrow> Bill" where
  "exampleBill billId ts billType balChg instId ordId =
     \<lparr>BillID = billId, Ts = ts, BillType = billType, SubType = [], Pnl = [], BalChg = balChg,
      Ccy = ''USDT'', InstId = instId, OrdId = ordId, Notes = []\<rparr>"

definition exampleEnv :: "BillResponse list \<Rightarrow> go_env" where
  "exampleEnv responses =
     \<lparr>ParseFloat = decimalParseFloat, ParseTime = utcParseTime, FormatTime = utcFormatTime,
      FormatFloat = fixedFormatFloat, Unmarshal = tableUnmarshal responses,
      NewRequest = (\<lambda>url. True)\<rparr>"

text \<open>A run in which the configuration and the ledger file are accessible.\<close>

definition normalRun :: "http_reply list \<Rightarrow> run_io" where
  "normalRun replies =
     \<lparr>ConfigReadable = True, Replies = replies, LedgerReadable = True, LedgerWritable = True\<rparr>"

text \<open>
  The environment and the run of a server that answers the first request with one page of
  the bills given, in a successful response.
\<close>

definition successResponse :: "Bill list \<Rightarrow> BillResponse" where
  "successResponse bills = \<lparr>Code = ''0'', Msg = [], Data = bills\<rparr>"

definition onePageEnv :: "Bill list \<Rightarrow> go_env" where
  "onePageEnv bills = exampleEnv [successResponse bills]"

definition onePageRun :: "Bill list \<Rightarrow> run_io" where
  "onePageRun bills = normalRun [Response 200 (encodeResponse (successResponse bills))]"

section \<open>Ground facts of the examples\<close>

text \<open>The values of the library functions on the texts and numbers of the examples.\<close>

lemma ParseInt_examples:
  "ParseInt ''90'' = Parsed 90"
  "ParseInt ''100'' = Parsed 100"
  "ParseInt ''105'' = Parsed 105"
  "ParseInt ''110'' = Parsed 110"
  "ParseInt ''1597026380000'' = Parsed 1597026380000"
  "ParseInt ''1597026383085'' = Parsed 1597026383085"
  "ParseInt ''1597026390000'' = Parsed 1597026390000"
  "ParseInt ''1597026392000'' = Parsed 1597026392000"
  "ParseInt ''1597026395000'' = Parsed 1597026395000"
  "ParseInt ''1597026399000'' = Parsed 1597026399000"
  "ParseInt ''soon'' = ErrSyntax"
  "ParseInt ''9223372036854775808'' = ErrRange 9223372036854775807"
  by code_simp+

lemma decimalParseFloat_examples:
  "decimalParseFloat ''0'' = Parsed (Finite 0)"
  "decimalParseFloat ''1'' = Parsed (Finite 1)"
  "decimalParseFloat ''50'' = Parsed (Finite 50)"
  "decimalParseFloat ''-1.0'' = Parsed (Finite (- 1))"
  "decimalParseFloat ''5.0'' = Parsed (Finite 5)"
  "decimalParseFloat ''50.0'' = Parsed (Finite 50)"
  "decimalParseFloat ''-0.5'' = Parsed (Finite (- (1 / 2)))"
  "decimalParseFloat ''-0.25'' = Parsed (Finite (- (1 / 4)))"
  "decimalParseFloat ''50.00000000'' = Parsed (Finite 50)"
  "decimalParseFloat ''-0.50000000'' = Parsed (Finite (- (1 / 2)))"
  "decimalParseFloat ''10000000000000000'' = Parsed (Finite 10000000000000000)"
  "decimalParseFloat ''n/a'' = ErrSyntax"
  "decimalParseFloat (CHR ''1'' # replicate 310 (CHR ''0'')) = ErrRange PosInf"
  by code_simp+

lemma round64_examples:
  "round64 4 = Finite 4"
  "round64 10000000000000001 = Finite 10000000000000000"
  by code_simp+

lemma utcFormatTime_examples:
  "utcFormatTime 1597026383085000000 = ''2020-08-10T02:26:23Z''"
  "utcFormatTime 1597026392000000000 = ''2020-08-10T02:26:32Z''"
  "utcFormatTime 1597026395000000000 = ''2020-08-10T02:26:35Z''"
  by code_simp+

lemma utcParseTime_examples:
  "utcParseTime ''2020-08-10T02:26:23Z'' = Some 1597026383000000000"
  "utcParseTime ''2020-08-10T02:26:32Z'' = Some 1597026392000000000"
  "utcParseTime ''2020-08-10 02:26:23'' = None"
  by code_simp+

lemma fixedFormatFloat_examples:
  "fixedFormatFloat (Finite 50) = ''50.00000000''"
  "fixedFormatFloat (Finite 4) = ''4.00000000''"
  "fixedFormatFloat (Finite (- (1 / 2))) = ''-0.50000000''"
  "fixedFormatFloat (Finite (- (1 / 4))) = ''-0.25000000''"
  by code_simp+

lemmas example_simps = exampleEnv_def exampleBill_def billAmount_def billTime_def UnixMilli_def
  aggregateAndMapBills_def mergedGroups_def orderGroups_def mergeBill_def newGroup_def
  standalone_def
  determineType_def getNoteFromType_def TypeDeposit_def TypePnL_def TypeWithdrawal_def
  ParseInt_examples decimalParseFloat_examples round64_examples

lemmas run_simps = main_def FetchBills_def handleReply_def initialState_def appendPage_def
  tableUnmarshal_def normalRun_def onePageEnv_def onePageRun_def successResponse_def
  importBills_def appendNewRecords_def newTransactions_def getLastRecordTimestamp_def
  LoadTransactions_def csvRecord_def csvHeader_def sortByTimestamp_def zeroTime_def
  requestURL_def utcFormatTime_examples utcParseTime_examples fixedFormatFloat_examples

section \<open>The aggregator: groups and standalone events\<close>

lemma aggregateLoop_standalone:
  "snd (aggregateLoop env bills m s) =
     s @ map (standalone env) (filter (\<lambda>b. OrdId b = []) bills)"
  by (induction bills arbitrary: m s) (auto split: option.splits)

lemma aggregateLoop_groups:
  "fst (aggregateLoop env bills m s) =
     fst (aggregateLoop env (filter (\<lambda>b. OrdId b \<noteq> []) bills) m s')"
  by (induction bills arbitrary: m s s') (auto split: option.splits)

lemma aggregateLoop_one_group:
  "\<forall>b\<in>set bills. OrdId b = k \<Longrightarrow> k \<noteq> [] \<Longrightarrow>
     aggregateLoop env bills [(k, t)] s = ([(k, foldl (mergeBill env) t bills)], s)"
  by (induction bills arbitrary: t) auto

lemma foldl_mergeBill_Amount:
  "Amount (foldl (mergeBill env) t bills) = foldl fadd (Amount t) (map (billAmount env) bills)"
  by (induction bills arbitrary: t) (auto simp: mergeBill_def)

lemma foldl_mergeBill_Type:
  "Type (foldl (mergeBill env) t bills) = Type t"
  by (induction bills arbitrary: t) (auto simp: mergeBill_def)

lemma foldl_mergeBill_Timestamp:
  "Timestamp (foldl (mergeBill env) t bills) = Max (insert (Timestamp t) (billTime ` set bills))"
proof (induction bills arbitrary: t)
  case Nil
  then show ?case by simp
next
  case (Cons b bills)
  have "Timestamp (mergeBill env t b) = max (Timestamp t) (billTime b)"
    by (simp add: mergeBill_def max_def)
  moreover have "Max (insert (max x y) S) = max x (Max (insert y S))"
    if "finite S" for x y :: int and S
    using that by (cases "S = {}") (simp_all add: max.assoc)
  ultimately show ?case
    using Cons.IH [of "mergeBill env t b"] by simp
qed

lemma aggregateLoop_distinct:
  "distinct (map fst m) \<Longrightarrow> distinct (map fst (fst (aggregateLoop env bills m s)))"
  by (induction bills arbitrary: m s) (auto simp: distinct_update split: option.splits)

lemma aggregateLoop_lookup:
  "k \<noteq> [] \<Longrightarrow>
     map_of (fst (aggregateLoop env bills m s)) k =
       foldl (groupStep env) (map_of m k) (filter (\<lambda>b. OrdId b = k) bills)"
  by (induction bills arbitrary: m s)
    (auto simp: update_conv' groupStep_def split: option.splits)

lemma foldl_groupStep:
  "foldl (groupStep env) (Some t) bills = Some (foldl (mergeBill env) t bills)"
  by (induction bills arbitrary: t) (auto simp: groupStep_def)

lemma distinct_filter_key:
  "distinct (map fst al) \<Longrightarrow> map_of al k = Some v \<Longrightarrow>
     filter (\<lambda>p. fst p = k) al = [(k, v)]"
proof (induction al)
  case Nil
  then show ?case by simp
next
  case (Cons p al)
  show ?case
  proof (cases "fst p = k")
    case True
    then have "\<forall>q\<in>set al. fst q \<noteq> k"
      using Cons.prems(1) by (auto simp: image_iff)
    then have "filter (\<lambda>q. fst q = k) al = []"
      by (simp add: filter_empty_conv)
    then show ?thesis
      using True Cons.prems(2) by (cases p) auto
  next
    case False
    then show ?thesis
      using Cons by (cases p) auto
  qed
qed

text \<open>
  C8. The result of the aggregator is the groups of the bills that carry an order identifier,
  followed by one transaction for each bill with an empty order identifier, in the order of
  the bills: the bills without an identifier add nothing to the groups, and each of them
  gives exactly the transaction \<open>standalone\<close>. The kind of that transaction is read from the
  type code of the bill alone: Deposit for \<^verbatim>\<open>"1"\<close>, Withdrawal for \<^verbatim>\<open>"2"\<close>, ProfitAndLoss for
  every other code (the code \<^verbatim>\<open>"8"\<close> of the funding fees among them); the three kinds are
  different values.
\<close>

theorem standalone_classification:
  "aggregateAndMapBills env bills =
     mergedGroups env (filter (\<lambda>b. OrdId b \<noteq> []) bills) @
     map (standalone env) (filter (\<lambda>b. OrdId b = []) bills) \<and>
   Type (standalone env bill) =
     (if BillType bill = ''1'' then TypeDeposit
      else if BillType bill = ''2'' then TypeWithdrawal else TypePnL) \<and>
   TypeDeposit \<noteq> TypeWithdrawal \<and> TypeDeposit \<noteq> TypePnL \<and> TypeWithdrawal \<noteq> TypePnL"
proof -
  have "mergedGroups env bills = mergedGroups env (filter (\<lambda>b. OrdId b \<noteq> []) bills)"
    unfolding mergedGroups_def orderGroups_def
    using aggregateLoop_groups [of env bills "[]" "[]" "[]"] by simp
  then show ?thesis
    by (simp add: aggregateAndMapBills_def aggregateLoop_standalone standalone_def
        determineType_def TypeDeposit_def TypeWithdrawal_def TypePnL_def)
qed

text \<open>
  The example of the specification: two bills of the order \<^verbatim>\<open>A\<close> and a deposit with no
  order give one ProfitAndLoss transaction and one Deposit.
\<close>

theorem standalone_classification_witness:
  "aggregateAndMapBills (exampleEnv [])
     [exampleBill ''1'' ''100'' ''2'' ''-1.0'' ''BTC-USDT-SWAP'' ''A'',
      exampleBill ''2'' ''105'' ''2'' ''5.0'' ''BTC-USDT-SWAP'' ''A'',
      exampleBill ''3'' ''90'' ''1'' ''50.0'' [] []] =
     [\<lparr>Timestamp = UnixMilli 105, Type = ''PNL'', Amount = Finite 4, Asset = ''USDT'',
       Note = ''Trade (BTC-USDT-SWAP)''\<rparr>,
      \<lparr>Timestamp = UnixMilli 90, Type = ''DEPOSIT'', Amount = Finite 50, Asset = ''USDT'',
       Note = ''Deposit''\<rparr>]"
  using standalone_classification [of "exampleEnv []"
      "[exampleBill ''1'' ''100'' ''2'' ''-1.0'' ''BTC-USDT-SWAP'' ''A'',
        exampleBill ''2'' ''105'' ''2'' ''5.0'' ''BTC-USDT-SWAP'' ''A'',
        exampleBill ''3'' ''90'' ''1'' ''50.0'' [] []]"
      "exampleBill ''3'' ''90'' ''1'' ''50.0'' [] []"]
  by (simp add: example_simps)

text \<open>
  C2, as the code has it. In any list of bills, the bills that carry one non-empty order
  identifier (the events, when there is at least one) give exactly one group of the map,
  and so one transaction of the result; when the list holds no other bill, that transaction
  is the whole result. Its kind is ProfitAndLoss, its timestamp is the greatest timestamp
  of the events, and its amount is the \<^verbatim>\<open>float64\<close> sum of the amounts of the events, added
  one after the other in the order of the list: every addition rounds to the nearest
  \<^verbatim>\<open>float64\<close>, so the amount can differ from the exact sum.
\<close>

theorem one_order_one_transaction:
  assumes "ordId \<noteq> []" and "events = filter (\<lambda>b. OrdId b = ordId) bills"
    and "events \<noteq> []"
  shows "\<exists>t. filter (\<lambda>p. fst p = ordId) (orderGroups env bills) = [(ordId, t)] \<and>
           Type t = TypePnL \<and>
           Amount t =
             foldl fadd (billAmount env (hd events)) (map (billAmount env) (tl events)) \<and>
           Timestamp t = Max (billTime ` set events) \<and>
           (events = bills \<longrightarrow> aggregateAndMapBills env bills = [t])"
proof -
  obtain b bs where events: "events = b # bs"
    using assms(3) by (cases events) auto
  let ?t = "foldl (mergeBill env) (newGroup env b) bs"
  have filtered: "filter (\<lambda>b. OrdId b = ordId) bills = b # bs"
    using assms(2) events by simp
  have "foldl (groupStep env) None (b # bs) = Some ?t"
    by (simp add: groupStep_def [of env None]) (simp add: foldl_groupStep)
  then have lookup: "map_of (orderGroups env bills) ordId = Some ?t"
    using aggregateLoop_lookup [OF assms(1), of env bills "[]" "[]"]
    by (simp add: orderGroups_def filtered)
  have "distinct (map fst (orderGroups env bills))"
    unfolding orderGroups_def by (rule aggregateLoop_distinct) simp
  then have one: "filter (\<lambda>p. fst p = ordId) (orderGroups env bills) = [(ordId, ?t)]"
    using lookup by (rule distinct_filter_key)
  have "Type ?t = TypePnL"
    by (simp add: foldl_mergeBill_Type newGroup_def)
  moreover have "Amount ?t =
      foldl fadd (billAmount env (hd events)) (map (billAmount env) (tl events))"
    by (simp add: foldl_mergeBill_Amount newGroup_def events)
  moreover have "Timestamp ?t = Max (billTime ` set events)"
    by (simp add: foldl_mergeBill_Timestamp newGroup_def events)
  moreover have "aggregateAndMapBills env bills = [?t]" if "events = bills"
  proof -
    have "set (b # bs) = {x \<in> set bills. OrdId x = ordId}"
      using filtered by (metis set_filter)
    then have "\<forall>x\<in>set (b # bs). OrdId x = ordId"
      by blast
    then have all: "\<forall>x\<in>set bs. OrdId x = ordId" and b: "OrdId b = ordId"
      by simp_all
    have "bills = b # bs"
      using that events by simp
    then have "aggregateLoop env bills [] [] = ([(ordId, ?t)], [])"
      using aggregateLoop_one_group [OF all assms(1), of env "newGroup env b" "[]"] b assms(1)
      by simp
    then show ?thesis
      by (simp add: aggregateAndMapBills_def mergedGroups_def orderGroups_def)
  qed
  ultimately show ?thesis
    using one by blast
qed

text \<open>
  The example of the specification: the two bills of the order \<^verbatim>\<open>A\<close> give one group with the
  amount \<open>-1 + 5\<close> and the later timestamp, beside the deposit; alone, they give one
  transaction.
\<close>

theorem one_order_one_transaction_witness:
  "filter (\<lambda>p. fst p = ''A'')
     (orderGroups (exampleEnv [])
       [exampleBill ''1'' ''100'' ''2'' ''-1.0'' ''BTC-USDT-SWAP'' ''A'',
        exampleBill ''3'' ''90'' ''1'' ''50.0'' [] [],
        exampleBill ''2'' ''105'' ''2'' ''5.0'' ''BTC-USDT-SWAP'' ''A'']) =
     [(''A'',
       \<lparr>Timestamp = UnixMilli 105, Type = ''PNL'', Amount = Finite 4, Asset = ''USDT'',
        Note = ''Trade (BTC-USDT-SWAP)''\<rparr>)] \<and>
   aggregateAndMapBills (exampleEnv [])
     [exampleBill ''1'' ''100'' ''2'' ''-1.0'' ''BTC-USDT-SWAP'' ''A'',
      exampleBill ''2'' ''105'' ''2'' ''5.0'' ''BTC-USDT-SWAP'' ''A''] =
     [\<lparr>Timestamp = UnixMilli 105, Type = ''PNL'', Amount = Finite 4, Asset = ''USDT'',
       Note = ''Trade (BTC-USDT-SWAP)''\<rparr>]"
  using
    one_order_one_transaction [of "''A''"
      "[exampleBill ''1'' ''100'' ''2'' ''-1.0'' ''BTC-USDT-SWAP'' ''A'',
        exampleBill ''2'' ''105'' ''2'' ''5.0'' ''BTC-USDT-SWAP'' ''A'']"
      "[exampleBill ''1'' ''100'' ''2'' ''-1.0'' ''BTC-USDT-SWAP'' ''A'',
        exampleBill ''3'' ''90'' ''1'' ''50.0'' [] [],
        exampleBill ''2'' ''105'' ''2'' ''5.0'' ''BTC-USDT-SWAP'' ''A'']"
      "exampleEnv []"]
    one_order_one_transaction [of "''A''"
      "[exampleBill ''1'' ''100'' ''2'' ''-1.0'' ''BTC-USDT-SWAP'' ''A'',
        exampleBill ''2'' ''105'' ''2'' ''5.0'' ''BTC-USDT-SWAP'' ''A'']"
      "[exampleBill ''1'' ''100'' ''2'' ''-1.0'' ''BTC-USDT-SWAP'' ''A'',
        exampleBill ''2'' ''105'' ''2'' ''5.0'' ''BTC-USDT-SWAP'' ''A'']"
      "exampleEnv []"]
  by (simp add: example_simps)

text \<open>
  The amount is not the exact sum in general. Three bills of one order with the amounts
  \<open>10000000000000000\<close>, \<open>1\<close> and \<open>1\<close>, each a \<^verbatim>\<open>float64\<close> value: the \<^verbatim>\<open>float64\<close> next above
  \<open>10000000000000000\<close> is \<open>10000000000000002\<close>, so each addition of \<open>1\<close> rounds back, and
  the amount of the group is \<open>10000000000000000\<close>, not the sum \<open>10000000000000002\<close>.
\<close>

theorem exact_sum_counterexample:
  "map (\<lambda>b. exactValue (billAmount (exampleEnv []) b))
     [exampleBill ''1'' ''100'' ''2'' ''10000000000000000'' ''BTC-USDT-SWAP'' ''A'',
      exampleBill ''2'' ''105'' ''2'' ''1'' ''BTC-USDT-SWAP'' ''A'',
      exampleBill ''3'' ''110'' ''2'' ''1'' ''BTC-USDT-SWAP'' ''A''] =
     [10000000000000000, 1, 1] \<and>
   map (\<lambda>t. exactValue (Amount t))
     (aggregateAndMapBills (exampleEnv [])
       [exampleBill ''1'' ''100'' ''2'' ''10000000000000000'' ''BTC-USDT-SWAP'' ''A'',
      exampleBill ''2'' ''105'' ''2'' ''1'' ''BTC-USDT-SWAP'' ''A'',
      exampleBill ''3'' ''110'' ''2'' ''1'' ''BTC-USDT-SWAP'' ''A'']) =
     [10000000000000000] \<and>
   sum_list (map (\<lambda>b. exactValue (billAmount (exampleEnv []) b))
     [exampleBill ''1'' ''100'' ''2'' ''10000000000000000'' ''BTC-USDT-SWAP'' ''A'',
      exampleBill ''2'' ''105'' ''2'' ''1'' ''BTC-USDT-SWAP'' ''A'',
      exampleBill ''3'' ''110'' ''2'' ''1'' ''BTC-USDT-SWAP'' ''A'']) =
     10000000000000002 \<and>
   (10000000000000000 :: rat) \<noteq> 10000000000000002"
  by (simp add: example_simps)

section \<open>The fetcher: retries and pages\<close>

lemma handleReply_rateLimit:
  "rateLimitSignal env reply \<Longrightarrow> handleReply env st reply = Next st"
  by (auto simp: rateLimitSignal_def handleReply_def split: http_reply.splits option.splits)

lemma handleReply_page:
  "successfulPage env reply = Some page \<Longrightarrow>
     handleReply env st reply =
       (if page = [] then Return (Inr (allBills st))
        else if length page < 100 then Return (Inr (allBills st @ page))
        else Next (appendPage st page))"
  by (auto simp: successfulPage_def handleReply_def appendPage_def
      split: http_reply.splits option.splits if_splits)

lemma handleReply_error:
  "\<not> rateLimitSignal env reply \<Longrightarrow> successfulPage env reply = None \<Longrightarrow>
     \<exists>err. handleReply env st reply = Return (Inl err)"
  by (auto simp: rateLimitSignal_def successfulPage_def handleReply_def
      split: http_reply.splits option.splits)

lemma handleReply_same_state:
  "handleReply env st reply = Next st' \<Longrightarrow> allBills st' = allBills st \<Longrightarrow>
     rateLimitSignal env reply"
  by (auto simp: rateLimitSignal_def handleReply_def appendPage_def
      split: http_reply.splits option.splits if_splits)

lemma fetchLoop_retries:
  "rateLimitSignal env reply \<Longrightarrow> NewRequest env (requestURL st) \<Longrightarrow>
     fetchLoop env (replicate n reply @ replies) st = fetchLoop env replies st"
  by (induction n) (simp_all add: handleReply_rateLimit)

text \<open>
  C6. In a state of the loop whose request can be built:
  \<^item> on a rate-limit signal the loop goes to its next iteration in the same state (the same
    bills, the same cursor, the same page count), and any number \<open>n\<close> of such replies in a
    row leaves the fetcher where it was, so the number of retries has no bound;
  \<^item> the loop goes on with the bills and the cursor unchanged only on a rate-limit signal;
  \<^item> a transport failure ends the fetch at once with the transport error;
  \<^item> a reply that is neither a rate-limit signal nor a successful page ends the fetch with an
    error.
\<close>

theorem fetch_retry:
  assumes "NewRequest env (requestURL st)"
  shows "(rateLimitSignal env reply \<longrightarrow>
            handleReply env st reply = Next st \<and>
            fetchLoop env (replicate n reply @ replies) st = fetchLoop env replies st) \<and>
         ((\<exists>st'. handleReply env st reply = Next st' \<and> allBills st' = allBills st \<and>
                 afterCursor st' = afterCursor st) = rateLimitSignal env reply) \<and>
         fetchLoop env (DoError # replies) st = Finished (Inl TransportError) \<and>
         (\<not> rateLimitSignal env reply \<longrightarrow> successfulPage env reply = None \<longrightarrow>
            (\<exists>err. fetchLoop env (reply # replies) st = Finished (Inl err)))"
proof -
  have "(\<exists>st'. handleReply env st reply = Next st' \<and> allBills st' = allBills st \<and>
          afterCursor st' = afterCursor st) = rateLimitSignal env reply"
    using handleReply_rateLimit [of env reply st] handleReply_same_state [of env st reply]
    by auto
  moreover have "fetchLoop env (DoError # replies) st = Finished (Inl TransportError)"
    using assms by (simp add: handleReply_def)
  moreover have "\<exists>err. fetchLoop env (reply # replies) st = Finished (Inl err)"
    if "\<not> rateLimitSignal env reply" and "successfulPage env reply = None"
    using handleReply_error [OF that, of st] assms by auto
  ultimately show ?thesis
    using assms by (simp add: handleReply_rateLimit fetchLoop_retries)
qed

text \<open>
  Three replies with the status 429 are three retries of the first page, and the transport
  failure that follows ends the fetch. Two replies with the business code \<^verbatim>\<open>50011\<close> leave
  the fetcher at its first request. A reply with the status 500, and a reply with the
  business code \<^verbatim>\<open>50113\<close>, end the fetch with an error.
\<close>

theorem fetch_retry_witness:
  "rateLimitSignal (exampleEnv []) (Response 429 ''Too Many Requests'') \<and>
   handleReply (exampleEnv []) initialState (Response 429 ''Too Many Requests'') =
     Next initialState \<and>
   FetchBills (exampleEnv [])
     [Response 429 ''Too Many Requests'', Response 429 ''Too Many Requests'',
      Response 429 ''Too Many Requests'', DoError] = Finished (Inl TransportError) \<and>
   rateLimitSignal (exampleEnv [\<lparr>Code = ''50011'', Msg = ''Too Many Requests'', Data = []\<rparr>])
     (Response 200
       (encodeResponse \<lparr>Code = ''50011'', Msg = ''Too Many Requests'', Data = []\<rparr>)) \<and>
   FetchBills (exampleEnv [\<lparr>Code = ''50011'', Msg = ''Too Many Requests'', Data = []\<rparr>])
     [Response 200
        (encodeResponse \<lparr>Code = ''50011'', Msg = ''Too Many Requests'', Data = []\<rparr>),
      Response 200
        (encodeResponse \<lparr>Code = ''50011'', Msg = ''Too Many Requests'', Data = []\<rparr>)] =
     Waiting initialState \<and>
   FetchBills (exampleEnv []) [Response 500 ''Internal Server Error''] =
     Finished (Inl (HTTPError ''Internal Server Error'')) \<and>
   FetchBills (exampleEnv [\<lparr>Code = ''50113'', Msg = ''Invalid Sign'', Data = []\<rparr>])
     [Response 200 (encodeResponse \<lparr>Code = ''50113'', Msg = ''Invalid Sign'', Data = []\<rparr>)] =
     Finished (Inl (BizError ''Invalid Sign''))"
  using
    fetch_retry [of "exampleEnv []" initialState "Response 429 ''Too Many Requests''" 3
      "[DoError]"]
    fetch_retry [of "exampleEnv [\<lparr>Code = ''50011'', Msg = ''Too Many Requests'', Data = []\<rparr>]"
      initialState
      "Response 200
        (encodeResponse \<lparr>Code = ''50011'', Msg = ''Too Many Requests'', Data = []\<rparr>)" 2 "[]"]
    fetch_retry [of "exampleEnv []" initialState "Response 500 ''Internal Server Error''" 0 "[]"]
    fetch_retry [of "exampleEnv [\<lparr>Code = ''50113'', Msg = ''Invalid Sign'', Data = []\<rparr>]"
      initialState
      "Response 200 (encodeResponse \<lparr>Code = ''50113'', Msg = ''Invalid Sign'', Data = []\<rparr>)"
      0 "[]"]
  by (simp add: exampleEnv_def rateLimitSignal_def FetchBills_def handleReply_def
      tableUnmarshal_def numeral_3_eq_3 numeral_2_eq_2)

text \<open>
  C7. The loop leaves by its \<^verbatim>\<open>break\<close>, and \<^verbatim>\<open>FetchBills\<close> returns the bills with no error,
  exactly on a successfully fetched page of fewer than 100 bills (an empty page among them).
  In a state whose request can be built, a successfully fetched page has one of three
  effects: an empty page returns the bills gathered so far (none, when it is the first
  page); a page of 1 to 99 bills returns the bills gathered so far followed by the page; a
  page of 100 bills or more appends the page, moves the cursor to the identifier of the last
  bill of the page, and the loop runs again on the replies that follow.
\<close>

theorem pagination:
  assumes "NewRequest env (requestURL st)"
  shows "((\<exists>bills. handleReply env st reply = Return (Inr bills)) =
            (case successfulPage env reply of None \<Rightarrow> False
             | Some page \<Rightarrow> length page < 100)) \<and>
         (case successfulPage env reply of
            None \<Rightarrow> True
          | Some page \<Rightarrow>
              fetchLoop env (reply # replies) st =
                (if page = [] then Finished (Inr (allBills st))
                 else if length page < 100 then Finished (Inr (allBills st @ page))
                 else fetchLoop env replies
                        \<lparr>allBills = allBills st @ page, afterCursor = BillID (last page),
                         pageCount = pageCount st + 1\<rparr>)) \<and>
         (st = initialState \<longrightarrow> successfulPage env reply = Some [] \<longrightarrow>
            FetchBills env (reply # replies) = Finished (Inr []))"
proof (cases "successfulPage env reply")
  case None
  have "\<not> (\<exists>bills. handleReply env st reply = Return (Inr bills))"
  proof (cases "rateLimitSignal env reply")
    case True
    then show ?thesis by (simp add: handleReply_rateLimit)
  next
    case False
    then show ?thesis using handleReply_error [OF False None, of st] by auto
  qed
  then show ?thesis using None by simp
next
  case (Some page)
  show ?thesis
    using assms
    by (auto simp: Some handleReply_page [OF Some] appendPage_def FetchBills_def
        initialState_def)
qed

text \<open>
  An empty first page, a first page of one bill, and a first page of 100 bills: after the
  last one the fetcher has sent the request for the second page, with the cursor \<^verbatim>\<open>7\<close>.
\<close>

theorem pagination_witness:
  "FetchBills (onePageEnv []) (Replies (onePageRun [])) = Finished (Inr []) \<and>
   FetchBills (onePageEnv [exampleBill ''7'' ''1597026392000'' ''8'' ''-0.5'' [] []])
     (Replies (onePageRun [exampleBill ''7'' ''1597026392000'' ''8'' ''-0.5'' [] []])) =
     Finished (Inr [exampleBill ''7'' ''1597026392000'' ''8'' ''-0.5'' [] []]) \<and>
   FetchBills
     (onePageEnv (replicate 100 (exampleBill ''7'' ''1597026392000'' ''8'' ''-0.5'' [] [])))
     (Replies
       (onePageRun (replicate 100 (exampleBill ''7'' ''1597026392000'' ''8'' ''-0.5'' [] [])))) =
     Waiting
       \<lparr>allBills = replicate 100 (exampleBill ''7'' ''1597026392000'' ''8'' ''-0.5'' [] []),
        afterCursor = ''7'', pageCount = 2\<rparr>"
  using
    pagination [of "onePageEnv []" initialState
      "Response 200 (encodeResponse (successResponse []))" "[]"]
    pagination [of "onePageEnv [exampleBill ''7'' ''1597026392000'' ''8'' ''-0.5'' [] []]"
      initialState
      "Response 200
        (encodeResponse
          (successResponse [exampleBill ''7'' ''1597026392000'' ''8'' ''-0.5'' [] []]))" "[]"]
    pagination [of
      "onePageEnv (replicate 100 (exampleBill ''7'' ''1597026392000'' ''8'' ''-0.5'' [] []))"
      initialState
      "Response 200
        (encodeResponse
          (successResponse
            (replicate 100 (exampleBill ''7'' ''1597026392000'' ''8'' ''-0.5'' [] []))))" "[]"]
  by (simp add: run_simps exampleEnv_def exampleBill_def successfulPage_def)

section \<open>The reconciler and the ledger\<close>

lemma filterNew_filter:
  "filterNew lastTimestamp transactions =
     filter (\<lambda>tx. Amount tx \<noteq> Finite 0 \<and> lastTimestamp < Timestamp tx) transactions"
  by (induction transactions) auto

lemma getLastRecordTimestamp_loaded:
  "LoadTransactions env io records = Inr txs \<Longrightarrow>
     getLastRecordTimestamp env io (Some records) =
       (if txs = [] then zeroTime else Timestamp (last txs))"
  by (simp add: getLastRecordTimestamp_def)

lemma importBills_writable:
  "LedgerWritable io \<Longrightarrow>
     importBills env io ledger lastTimestamp rawBills =
       (Completed,
        if newTransactions env lastTimestamp rawBills = [] then ledger
        else Some ((case ledger of None \<Rightarrow> [csvHeader] | Some records \<Rightarrow> records) @
                   map (csvRecord env)
                     (sortByTimestamp (newTransactions env lastTimestamp rawBills))))"
  by (simp add: importBills_def appendNewRecords_def)

lemma main_fetched:
  "ConfigReadable io \<Longrightarrow> FetchBills env (Replies io) = Finished (Inr rawBills) \<Longrightarrow>
     main env io ledger =
       importBills env io ledger (getLastRecordTimestamp env io ledger) rawBills"
  by (simp add: main_def)

lemma sortByTimestamp_empty:
  "(sortByTimestamp txs = []) = (txs = [])"
  by (metis length_0_conv length_sort sortByTimestamp_def)

lemma sorted_le_last:
  "sorted (map f xs) \<Longrightarrow> x \<in> set xs \<Longrightarrow> f x \<le> f (last xs)"
  by (induction xs) auto

text \<open>
  C3, as the code has it. For a ledger file that loads without error and has a last entry,
  with the timestamp \<open>T\<close>: the watermark of the run is \<open>T\<close>, and the transactions to append
  are the candidates of the aggregator, in their order, whose amount is not 0 and whose
  timestamp is strictly greater than \<open>T\<close>. So every candidate with a timestamp less than or
  equal to \<open>T\<close> is excluded, and a candidate with a timestamp greater than \<open>T\<close> is included
  if and only if its amount is not 0.
\<close>

theorem watermark_filter:
  assumes "LoadTransactions env io records = Inr txs" and "txs \<noteq> []"
  shows "getLastRecordTimestamp env io (Some records) = Timestamp (last txs) \<and>
         newTransactions env (Timestamp (last txs)) rawBills =
           filter (\<lambda>tx. Amount tx \<noteq> Finite 0 \<and> Timestamp (last txs) < Timestamp tx)
             (aggregateAndMapBills env rawBills)"
  using assms by (simp add: getLastRecordTimestamp_loaded newTransactions_def filterNew_filter)

text \<open>
  A ledger with one deposit at 02:26:23, and three bills: the order \<^verbatim>\<open>A\<close>, later than the
  deposit, is appended; the deposit of 02:26:20 is not.
\<close>

theorem watermark_filter_witness:
  "LoadTransactions (exampleEnv []) (normalRun [])
     [[''timestamp'', ''type'', ''amount'', ''asset'', ''note''],
      [''2020-08-10T02:26:23Z'', ''DEPOSIT'', ''50.00000000'', ''USDT'', ''Deposit'']] =
     Inr [\<lparr>Timestamp = 1597026383000000000, Type = ''DEPOSIT'', Amount = Finite 50,
           Asset = ''USDT'', Note = ''Deposit''\<rparr>] \<and>
   getLastRecordTimestamp (exampleEnv []) (normalRun [])
     (Some [[''timestamp'', ''type'', ''amount'', ''asset'', ''note''],
            [''2020-08-10T02:26:23Z'', ''DEPOSIT'', ''50.00000000'', ''USDT'', ''Deposit'']]) =
     1597026383000000000 \<and>
   newTransactions (exampleEnv []) 1597026383000000000
     [exampleBill ''1'' ''1597026390000'' ''2'' ''-1.0'' ''BTC-USDT-SWAP'' ''A'',
      exampleBill ''2'' ''1597026395000'' ''2'' ''5.0'' ''BTC-USDT-SWAP'' ''A'',
      exampleBill ''3'' ''1597026380000'' ''1'' ''50.0'' [] []] =
     [\<lparr>Timestamp = UnixMilli 1597026395000, Type = ''PNL'', Amount = Finite 4,
       Asset = ''USDT'', Note = ''Trade (BTC-USDT-SWAP)''\<rparr>]"
  using watermark_filter [of "exampleEnv []" "normalRun []"
      "[[''timestamp'', ''type'', ''amount'', ''asset'', ''note''],
        [''2020-08-10T02:26:23Z'', ''DEPOSIT'', ''50.00000000'', ''USDT'', ''Deposit'']]"
      "[\<lparr>Timestamp = 1597026383000000000, Type = ''DEPOSIT'', Amount = Finite 50,
          Asset = ''USDT'', Note = ''Deposit''\<rparr>]"
      "[exampleBill ''1'' ''1597026390000'' ''2'' ''-1.0'' ''BTC-USDT-SWAP'' ''A'',
        exampleBill ''2'' ''1597026395000'' ''2'' ''5.0'' ''BTC-USDT-SWAP'' ''A'',
        exampleBill ''3'' ''1597026380000'' ''1'' ''50.0'' [] []]"]
  by (simp add: run_simps example_simps)

text \<open>
  A candidate later than the watermark is not always appended. The same ledger, and a
  funding fee of 0 at 02:26:39: the aggregator makes it a candidate, its timestamp is
  greater than the watermark, and the set to append is empty.
\<close>

theorem zero_amount_counterexample:
  "getLastRecordTimestamp (exampleEnv []) (normalRun [])
     (Some [[''timestamp'', ''type'', ''amount'', ''asset'', ''note''],
            [''2020-08-10T02:26:23Z'', ''DEPOSIT'', ''50.00000000'', ''USDT'', ''Deposit'']]) =
     1597026383000000000 \<and>
   aggregateAndMapBills (exampleEnv [])
     [exampleBill ''4'' ''1597026399000'' ''8'' ''0'' ''BTC-USDT-SWAP'' []] =
     [\<lparr>Timestamp = 1597026399000000000, Type = ''PNL'', Amount = Finite 0, Asset = ''USDT'',
       Note = ''Funding Fee (BTC-USDT-SWAP)''\<rparr>] \<and>
   (1597026383000000000 :: int) < 1597026399000000000 \<and>
   newTransactions (exampleEnv []) 1597026383000000000
     [exampleBill ''4'' ''1597026399000'' ''8'' ''0'' ''BTC-USDT-SWAP'' []] = []"
  by (simp add: run_simps example_simps)

text \<open>
  \<^verbatim>\<open>LoadTransactions\<close> on the records from the index \<open>k\<close> on: it returns an error exactly
  when one of the records after the header is a row that fails parsing.
\<close>

lemma loadLoop_error:
  "(\<exists>err. loadLoop env k records acc = Inl err) =
     (\<exists>i<length records. 0 < k + i \<and> rowFails env (records ! i))"
proof (induction records arbitrary: k acc)
  case Nil
  then show ?case by simp
next
  case (Cons row records)
  have shift: "(\<exists>i<length (row # records). 0 < k + i \<and> rowFails env ((row # records) ! i)) =
      ((0 < k \<and> rowFails env row) \<or>
       (\<exists>i<length records. 0 < (k + 1) + i \<and> rowFails env (records ! i)))"
    by (simp add: Ex_less_Suc2)
  show ?case
  proof (cases "0 < k \<and> rowFails env row")
    case True
    then have "\<exists>err. loadLoop env k (row # records) acc = Inl err"
      by (auto simp: rowFails_def split: option.splits parsed.splits)
    then show ?thesis
      unfolding shift using True by (simp del: loadLoop.simps)
  next
    case False
    then have "\<exists>acc'. loadLoop env k (row # records) acc = loadLoop env (k + 1) records acc'"
      by (cases "ParseFloat env (row ! 2)"; cases "ParseTime env (row ! 0)")
        (auto simp: rowFails_def not_le)
    then obtain acc' where
      step: "loadLoop env k (row # records) acc = loadLoop env (k + 1) records acc'"
      by blast
    have "(\<exists>err. loadLoop env (k + 1) records acc' = Inl err) =
        (\<exists>i<length records. 0 < (k + 1) + i \<and> rowFails env (records ! i))"
      by (rule Cons.IH)
    then have "(\<exists>err. loadLoop env k (row # records) acc = Inl err) =
        (\<exists>i<length records. 0 < (k + 1) + i \<and> rowFails env (records ! i))"
      by (simp only: step)
    then show ?thesis
      unfolding shift using False by (auto simp del: loadLoop.simps)
  qed
qed

text \<open>
  C4, as the code has it. \<^verbatim>\<open>LoadTransactions\<close> returns an error exactly when the file
  cannot be read or a row of the existing ledger, after the header, fails the parsing of its
  timestamp or of its amount. \<^verbatim>\<open>getLastRecordTimestamp\<close> drops the error and returns the
  zero time. The run does not abort: when the configuration is read, the fetch succeeds and
  the ledger can be opened for writing, it completes and appends to the file every candidate
  with an amount other than 0 and a timestamp later than the zero time, as on an empty
  ledger.
\<close>

theorem unreadable_ledger_is_empty_ledger:
  "((\<exists>err. LoadTransactions env io records = Inl err) =
      (\<not> LedgerReadable io \<or>
       (\<exists>i<length records. 0 < i \<and> rowFails env (records ! i)))) \<and>
   ((\<exists>err. LoadTransactions env io records = Inl err) \<longrightarrow>
      getLastRecordTimestamp env io (Some records) = zeroTime \<and>
      (ConfigReadable io \<longrightarrow> LedgerWritable io \<longrightarrow>
       FetchBills env (Replies io) = Finished (Inr rawBills) \<longrightarrow>
         main env io (Some records) =
           (Completed,
            Some (records @
                  map (csvRecord env)
                    (sortByTimestamp (newTransactions env zeroTime rawBills))))))"
proof -
  have load: "(\<exists>err. LoadTransactions env io records = Inl err) =
      (\<not> LedgerReadable io \<or>
       (\<exists>i<length records. 0 < i \<and> rowFails env (records ! i)))"
    using loadLoop_error [of env 0 records "[]"] by (simp add: LoadTransactions_def)
  have run: "getLastRecordTimestamp env io (Some records) = zeroTime \<and>
      (ConfigReadable io \<longrightarrow> LedgerWritable io \<longrightarrow>
       FetchBills env (Replies io) = Finished (Inr rawBills) \<longrightarrow>
         main env io (Some records) =
           (Completed,
            Some (records @
                  map (csvRecord env)
                    (sortByTimestamp (newTransactions env zeroTime rawBills)))))"
    if "LoadTransactions env io records = Inl err" for err
  proof -
    have w: "getLastRecordTimestamp env io (Some records) = zeroTime"
      using that by (simp add: getLastRecordTimestamp_def)
    show ?thesis
      by (auto simp: w main_fetched importBills_writable sortByTimestamp_def)
  qed
  show ?thesis using load run by blast
qed

text \<open>
  A ledger whose only row has a timestamp that is not in the layout RFC 3339 (a space for
  the \<^verbatim>\<open>T\<close>, no zone), and a server with one deposit: the row fails parsing, the load
  returns the error of line 2, and the run completes and appends the deposit. A row whose
  amount is out of the range of float64 fails parsing as well.
\<close>

theorem unreadable_ledger_witness:
  "rowFails
     (onePageEnv [exampleBill ''623950854533513219'' ''1597026383085'' ''1'' ''50'' [] []])
     [''2020-08-10 02:26:23'', ''DEPOSIT'', ''50.00000000'', ''USDT'', ''Deposit''] \<and>
   LoadTransactions
     (onePageEnv [exampleBill ''623950854533513219'' ''1597026383085'' ''1'' ''50'' [] []])
     (onePageRun [exampleBill ''623950854533513219'' ''1597026383085'' ''1'' ''50'' [] []])
     [[''timestamp'', ''type'', ''amount'', ''asset'', ''note''],
      [''2020-08-10 02:26:23'', ''DEPOSIT'', ''50.00000000'', ''USDT'', ''Deposit'']] =
     Inl (TimeFormatError 2) \<and>
   getLastRecordTimestamp
     (onePageEnv [exampleBill ''623950854533513219'' ''1597026383085'' ''1'' ''50'' [] []])
     (onePageRun [exampleBill ''623950854533513219'' ''1597026383085'' ''1'' ''50'' [] []])
     (Some [[''timestamp'', ''type'', ''amount'', ''asset'', ''note''],
            [''2020-08-10 02:26:23'', ''DEPOSIT'', ''50.00000000'', ''USDT'', ''Deposit'']]) =
     zeroTime \<and>
   main
     (onePageEnv [exampleBill ''623950854533513219'' ''1597026383085'' ''1'' ''50'' [] []])
     (onePageRun [exampleBill ''623950854533513219'' ''1597026383085'' ''1'' ''50'' [] []])
     (Some [[''timestamp'', ''type'', ''amount'', ''asset'', ''note''],
            [''2020-08-10 02:26:23'', ''DEPOSIT'', ''50.00000000'', ''USDT'', ''Deposit'']]) =
     (Completed,
      Some [[''timestamp'', ''type'', ''amount'', ''asset'', ''note''],
            [''2020-08-10 02:26:23'', ''DEPOSIT'', ''50.00000000'', ''USDT'', ''Deposit''],
            [''2020-08-10T02:26:23Z'', ''DEPOSIT'', ''50.00000000'', ''USDT'', ''Deposit'']]) \<and>
   rowFails (exampleEnv [])
     [''2020-08-10T02:26:23Z'', ''DEPOSIT'', CHR ''1'' # replicate 310 (CHR ''0''), ''USDT'',
      ''Deposit''] \<and>
   LoadTransactions (exampleEnv []) (normalRun [])
     [[''timestamp'', ''type'', ''amount'', ''asset'', ''note''],
      [''2020-08-10T02:26:23Z'', ''DEPOSIT'', CHR ''1'' # replicate 310 (CHR ''0''), ''USDT'',
       ''Deposit'']] =
     Inl (AmountError 2)"
  using unreadable_ledger_is_empty_ledger [of
      "onePageEnv [exampleBill ''623950854533513219'' ''1597026383085'' ''1'' ''50'' [] []]"
      "onePageRun [exampleBill ''623950854533513219'' ''1597026383085'' ''1'' ''50'' [] []]"
      "[[''timestamp'', ''type'', ''amount'', ''asset'', ''note''],
        [''2020-08-10 02:26:23'', ''DEPOSIT'', ''50.00000000'', ''USDT'', ''Deposit'']]"
      "[exampleBill ''623950854533513219'' ''1597026383085'' ''1'' ''50'' [] []]"]
  by (simp add: run_simps example_simps rowFails_def)

text \<open>
  The run does not abort on a ledger row that fails parsing. A ledger whose only row has
  the amount \<^verbatim>\<open>n/a\<close>, and the same server: \<^verbatim>\<open>LoadTransactions\<close> returns the error of line 2,
  and the run completes and appends a row.
\<close>

theorem unreadable_ledger_counterexample:
  "LoadTransactions
     (onePageEnv [exampleBill ''623950854533513219'' ''1597026383085'' ''1'' ''50'' [] []])
     (onePageRun [exampleBill ''623950854533513219'' ''1597026383085'' ''1'' ''50'' [] []])
     [[''timestamp'', ''type'', ''amount'', ''asset'', ''note''],
      [''2020-08-10T02:26:23Z'', ''DEPOSIT'', ''n/a'', ''USDT'', ''Deposit'']] =
     Inl (AmountError 2) \<and>
   main
     (onePageEnv [exampleBill ''623950854533513219'' ''1597026383085'' ''1'' ''50'' [] []])
     (onePageRun [exampleBill ''623950854533513219'' ''1597026383085'' ''1'' ''50'' [] []])
     (Some [[''timestamp'', ''type'', ''amount'', ''asset'', ''note''],
            [''2020-08-10T02:26:23Z'', ''DEPOSIT'', ''n/a'', ''USDT'', ''Deposit'']]) =
     (Completed,
      Some [[''timestamp'', ''type'', ''amount'', ''asset'', ''note''],
            [''2020-08-10T02:26:23Z'', ''DEPOSIT'', ''n/a'', ''USDT'', ''Deposit''],
            [''2020-08-10T02:26:23Z'', ''DEPOSIT'', ''50.00000000'', ''USDT'', ''Deposit'']])"
  by (simp add: run_simps example_simps)




text \<open>
  C9. A run that ends with a fatal error leaves the ledger file as it was, and so does a
  run that is still fetching. Every run leaves the file as it was, or completes after one
  call of \<^verbatim>\<open>appendNewRecords\<close> on the file it found, with the whole list of the
  transactions to append, computed from all the bills the fetch returned.
\<close>

theorem fatal_run_leaves_ledger:
  "((\<exists>e. fst (main env io ledger) = Fatal e) \<longrightarrow> snd (main env io ledger) = ledger) \<and>
   ((\<exists>st. fst (main env io ledger) = Fetching st) \<longrightarrow> snd (main env io ledger) = ledger) \<and>
   (snd (main env io ledger) = ledger \<or>
    (\<exists>rawBills ledger'.
       FetchBills env (Replies io) = Finished (Inr rawBills) \<and>
       appendNewRecords env io ledger
         (newTransactions env (getLastRecordTimestamp env io ledger) rawBills) = Some ledger' \<and>
       main env io ledger = (Completed, ledger')))"
  by (auto simp: main_def importBills_def Let_def
      split: fetch_result.splits sum.splits option.splits if_splits)

text \<open>
  Three fatal runs on a ledger that holds its header: the configuration cannot be read, the
  transport fails, and the ledger cannot be opened for writing. A fourth run is still
  fetching after a rate-limit reply.
\<close>

theorem fatal_run_witness:
  "main (onePageEnv []) ((onePageRun [])\<lparr>ConfigReadable := False\<rparr>)
     (Some [[''timestamp'', ''type'', ''amount'', ''asset'', ''note'']]) =
     (Fatal ConfigError, Some [[''timestamp'', ''type'', ''amount'', ''asset'', ''note'']]) \<and>
   main (onePageEnv []) (normalRun [DoError])
     (Some [[''timestamp'', ''type'', ''amount'', ''asset'', ''note'']]) =
     (Fatal (FetchFailed TransportError),
      Some [[''timestamp'', ''type'', ''amount'', ''asset'', ''note'']]) \<and>
   main (onePageEnv [exampleBill ''7'' ''1597026392000'' ''8'' ''-0.5'' [] []])
     ((onePageRun [exampleBill ''7'' ''1597026392000'' ''8'' ''-0.5'' [] []])
       \<lparr>LedgerWritable := False\<rparr>)
     (Some [[''timestamp'', ''type'', ''amount'', ''asset'', ''note'']]) =
     (Fatal OpenFileError, Some [[''timestamp'', ''type'', ''amount'', ''asset'', ''note'']]) \<and>
   main (onePageEnv []) (normalRun [Response 429 ''Too Many Requests''])
     (Some [[''timestamp'', ''type'', ''amount'', ''asset'', ''note'']]) =
     (Fetching initialState, Some [[''timestamp'', ''type'', ''amount'', ''asset'', ''note'']])"
  using
    fatal_run_leaves_ledger [of "onePageEnv []" "(onePageRun [])\<lparr>ConfigReadable := False\<rparr>"
      "Some [[''timestamp'', ''type'', ''amount'', ''asset'', ''note'']]"]
    fatal_run_leaves_ledger [of "onePageEnv []" "normalRun [DoError]"
      "Some [[''timestamp'', ''type'', ''amount'', ''asset'', ''note'']]"]
    fatal_run_leaves_ledger [of
      "onePageEnv [exampleBill ''7'' ''1597026392000'' ''8'' ''-0.5'' [] []]"
      "(onePageRun [exampleBill ''7'' ''1597026392000'' ''8'' ''-0.5'' [] []])
         \<lparr>LedgerWritable := False\<rparr>"
      "Some [[''timestamp'', ''type'', ''amount'', ''asset'', ''note'']]"]
    fatal_run_leaves_ledger [of "onePageEnv []" "normalRun [Response 429 ''Too Many Requests'']"
      "Some [[''timestamp'', ''type'', ''amount'', ''asset'', ''note'']]"]
  by (simp add: run_simps example_simps)

section \<open>Running the importer twice\<close>

text \<open>
  What \<^verbatim>\<open>LoadTransactions\<close> reads from a file that ends in rows written by
  \<^verbatim>\<open>appendNewRecords\<close>, when each of these rows reads back: the time of day parsed from
  the text of a timestamp is that timestamp, and the text of an amount parses.
\<close>

lemma loadLoop_append:
  "loadLoop env i (rs1 @ rs2) acc =
     (case loadLoop env i rs1 acc of
        Inl err \<Rightarrow> Inl err
      | Inr acc' \<Rightarrow> loadLoop env (i + length rs1) rs2 acc')"
  by (induction rs1 arbitrary: i acc) (simp_all split: option.splits parsed.splits sum.splits)

lemma loadLoop_written:
  assumes "0 < i"
    and "\<forall>tx\<in>set batch.
           ParseTime env (FormatTime env (Timestamp tx)) = Some (Timestamp tx) \<and>
           (\<exists>a. ParseFloat env (FormatFloat env (Amount tx)) = Parsed a)"
  shows "\<exists>txs'. loadLoop env i (map (csvRecord env) batch) acc = Inr (acc @ txs') \<and>
           map Timestamp txs' = map Timestamp batch"
  using assms
proof (induction batch arbitrary: i acc)
  case Nil
  then show ?case by simp
next
  case (Cons tx batch)
  obtain a where a: "ParseFloat env (FormatFloat env (Amount tx)) = Parsed a"
    using Cons.prems(2) by auto
  have t: "ParseTime env (FormatTime env (Timestamp tx)) = Some (Timestamp tx)"
    using Cons.prems(2) by simp
  let ?tx' = "\<lparr>Timestamp = Timestamp tx, Type = Type tx, Amount = a, Asset = Asset tx,
               Note = Note tx\<rparr>"
  obtain txs' where
    "loadLoop env (i + 1) (map (csvRecord env) batch) (acc @ [?tx']) = Inr ((acc @ [?tx']) @ txs')"
    and "map Timestamp txs' = map Timestamp batch"
    using Cons.IH [of "i + 1" "acc @ [?tx']"] Cons.prems(2) by auto
  then have "loadLoop env i (map (csvRecord env) (tx # batch)) acc = Inr (acc @ (?tx' # txs'))"
    and "map Timestamp (?tx' # txs') = map Timestamp (tx # batch)"
    using Cons.prems(1) a t by (simp_all add: csvRecord_def)
  then show ?case by blast
qed

text \<open>
  Under that condition on the rows of the first run, and from a ledger that does not exist
  or that has a first record and loads, a second run on the file of the first, with the same
  bills, leaves the file as it is.
\<close>

lemma second_run_appends_nothing:
  assumes "ConfigReadable io" and "LedgerWritable io" and "LedgerReadable io"
    and "FetchBills env (Replies io) = Finished (Inr rawBills)"
    and "case ledger of None \<Rightarrow> True
         | Some records \<Rightarrow> records \<noteq> [] \<and> (\<exists>txs. LoadTransactions env io records = Inr txs)"
    and "\<forall>tx\<in>set (newTransactions env (getLastRecordTimestamp env io ledger) rawBills).
           ParseTime env (FormatTime env (Timestamp tx)) = Some (Timestamp tx) \<and>
           (\<exists>a. ParseFloat env (FormatFloat env (Amount tx)) = Parsed a)"
  shows "main env io (snd (main env io ledger)) = (Completed, snd (main env io ledger))"
proof -
  let ?T = "getLastRecordTimestamp env io ledger"
  let ?new = "newTransactions env ?T rawBills"
  let ?batch = "sortByTimestamp ?new"
  let ?rows = "case ledger of None \<Rightarrow> [csvHeader] | Some records \<Rightarrow> records"
  have first: "main env io ledger =
      (Completed, if ?new = [] then ledger else Some (?rows @ map (csvRecord env) ?batch))"
    using assms(1,2,4) by (simp add: main_fetched importBills_writable)
  show ?thesis
  proof (cases "?new = []")
    case True
    then show ?thesis using first by simp
  next
    case False
    let ?ledger' = "Some (?rows @ map (csvRecord env) ?batch)"
    have ledger': "snd (main env io ledger) = ?ledger'"
      using first False by simp
    obtain r rs where rows: "?rows = r # rs"
      using assms(5) by (cases ledger; cases "?rows") auto
    obtain txs0 where txs0: "loadLoop env 0 ?rows [] = Inr txs0"
      using assms(3,5) by (cases ledger) (auto simp: LoadTransactions_def csvHeader_def)
    have batch_ok: "\<forall>tx\<in>set ?batch.
        ParseTime env (FormatTime env (Timestamp tx)) = Some (Timestamp tx) \<and>
        (\<exists>a. ParseFloat env (FormatFloat env (Amount tx)) = Parsed a)"
      using assms(6) by (simp add: sortByTimestamp_def)
    have "0 < 0 + length ?rows" using rows by simp
    then obtain txs' where
      read: "loadLoop env (0 + length ?rows) (map (csvRecord env) ?batch) txs0 = Inr (txs0 @ txs')"
      and times: "map Timestamp txs' = map Timestamp ?batch"
      using loadLoop_written [OF _ batch_ok, of "0 + length ?rows" txs0] by blast
    have loaded: "LoadTransactions env io (?rows @ map (csvRecord env) ?batch) = Inr (txs0 @ txs')"
      using assms(3) txs0 read by (simp add: LoadTransactions_def loadLoop_append)
    have batch_ne: "?batch \<noteq> []"
      using False by (simp add: sortByTimestamp_empty)
    then have txs'_ne: "txs' \<noteq> []"
      using times by auto
    have "last (map Timestamp txs') = last (map Timestamp ?batch)"
      using times by simp
    then have last_eq: "Timestamp (last txs') = Timestamp (last ?batch)"
      using txs'_ne batch_ne by (simp add: last_map)
    let ?T' = "getLastRecordTimestamp env io ?ledger'"
    have T': "?T' = Timestamp (last ?batch)"
      using getLastRecordTimestamp_loaded [OF loaded] txs'_ne last_eq by simp
    have sorted_batch: "sorted (map Timestamp ?batch)"
      by (simp add: sortByTimestamp_def)
    have upper: "Timestamp tx \<le> ?T'" if "tx \<in> set ?new" for tx
    proof -
      have "tx \<in> set ?batch" using that by (simp add: sortByTimestamp_def)
      then show ?thesis
        using sorted_le_last [OF sorted_batch] T' by simp
    qed
    have "last ?batch \<in> set ?new"
      using batch_ne last_in_set [of ?batch] by (simp add: sortByTimestamp_def)
    then have lower: "?T < ?T'"
      using T' by (simp add: newTransactions_def filterNew_filter)
    have "newTransactions env ?T' rawBills = []"
    proof (rule ccontr)
      assume "newTransactions env ?T' rawBills \<noteq> []"
      then obtain tx where tx: "tx \<in> set (newTransactions env ?T' rawBills)"
        by (cases "newTransactions env ?T' rawBills") auto
      then have "tx \<in> set (aggregateAndMapBills env rawBills)" and "Amount tx \<noteq> Finite 0"
        and late: "?T' < Timestamp tx"
        by (simp_all add: newTransactions_def filterNew_filter)
      then have "tx \<in> set ?new"
        using lower by (simp add: newTransactions_def filterNew_filter)
      then show False
        using upper late by fastforce
    qed
    then have "main env io ?ledger' = (Completed, ?ledger')"
      using assms(1,4) by (simp add: main_fetched importBills_def)
    then show ?thesis
      using ledger' by simp
  qed
qed

text \<open>
  The condition holds for a funding fee at the whole second 1597026392000: the second run
  appends nothing.
\<close>

lemma second_run_appends_nothing_example:
  "main (onePageEnv [exampleBill ''7'' ''1597026392000'' ''8'' ''-0.5'' [] []])
     (onePageRun [exampleBill ''7'' ''1597026392000'' ''8'' ''-0.5'' [] []]) None =
     (Completed, Some [[''timestamp'', ''type'', ''amount'', ''asset'', ''note''],
                       [''2020-08-10T02:26:32Z'', ''PNL'', ''-0.50000000'', ''USDT'', ''Funding Fee'']]) \<and>
   main (onePageEnv [exampleBill ''7'' ''1597026392000'' ''8'' ''-0.5'' [] []])
     (onePageRun [exampleBill ''7'' ''1597026392000'' ''8'' ''-0.5'' [] []])
     (Some [[''timestamp'', ''type'', ''amount'', ''asset'', ''note''],
            [''2020-08-10T02:26:32Z'', ''PNL'', ''-0.50000000'', ''USDT'', ''Funding Fee'']]) =
     (Completed, Some [[''timestamp'', ''type'', ''amount'', ''asset'', ''note''],
                       [''2020-08-10T02:26:32Z'', ''PNL'', ''-0.50000000'', ''USDT'', ''Funding Fee'']])"
  using second_run_appends_nothing
    [of "onePageRun [exampleBill ''7'' ''1597026392000'' ''8'' ''-0.5'' [] []]"
        "onePageEnv [exampleBill ''7'' ''1597026392000'' ''8'' ''-0.5'' [] []]"
        "[exampleBill ''7'' ''1597026392000'' ''8'' ''-0.5'' [] []]" None]
  by (simp add: run_simps example_simps)

text \<open>
  C1 fails on the code. The bill is a deposit of 50 at the millisecond 1597026383085, and
  the ledger does not exist. The first run appends the deposit, and the row it writes names
  the second 02:26:23, since the layout of the timestamp has no fraction of a second. The
  second run, on the file of the first and with the same bill, reads the watermark 02:26:23.000
  from that row; the deposit is 85 milliseconds later, so it is appended again.
\<close>

theorem second_run_appends_again:
  "main
     (onePageEnv [exampleBill ''623950854533513219'' ''1597026383085'' ''1'' ''50'' [] []])
     (onePageRun [exampleBill ''623950854533513219'' ''1597026383085'' ''1'' ''50'' [] []])
     None =
     (Completed, Some [[''timestamp'', ''type'', ''amount'', ''asset'', ''note''],
                       [''2020-08-10T02:26:23Z'', ''DEPOSIT'', ''50.00000000'', ''USDT'', ''Deposit'']]) \<and>
   main
     (onePageEnv [exampleBill ''623950854533513219'' ''1597026383085'' ''1'' ''50'' [] []])
     (onePageRun [exampleBill ''623950854533513219'' ''1597026383085'' ''1'' ''50'' [] []])
     (Some [[''timestamp'', ''type'', ''amount'', ''asset'', ''note''],
            [''2020-08-10T02:26:23Z'', ''DEPOSIT'', ''50.00000000'', ''USDT'', ''Deposit'']]) =
     (Completed, Some [[''timestamp'', ''type'', ''amount'', ''asset'', ''note''],
                       [''2020-08-10T02:26:23Z'', ''DEPOSIT'', ''50.00000000'', ''USDT'', ''Deposit''],
                       [''2020-08-10T02:26:23Z'', ''DEPOSIT'', ''50.00000000'', ''USDT'', ''Deposit'']])"
  by (simp add: run_simps example_simps)

section \<open>Parse errors in the aggregator\<close>







end
